theory Spec2Isabelle
  imports Main "HOL-Library.Sublist"
begin

section \<open>JavaScript values seen by error-catch-notifier\<close>

text \<open>
  The module \<^verbatim>\<open>src/error-catch-notifier.js\<close> is dynamically typed: every argument it
  receives is an arbitrary JavaScript value, and it inspects those values by truthiness, by
  member access (\<^verbatim>\<open>constructor\<close>, \<^verbatim>\<open>call\<close>, \<^verbatim>\<open>apply\<close>, \<^verbatim>\<open>name\<close>), by conversion to text and by
  calling them. The embedding therefore starts with a datatype of values.

  Scope of the value model:
  \<^item> numbers are the integer-valued ones; strings are lists of 8-bit characters;
  \<^item> a plain object is the association list of its own properties and inherits the rest
    from \<^verbatim>\<open>Object.prototype\<close>; objects that redefine \<^verbatim>\<open>toString\<close>, \<^verbatim>\<open>valueOf\<close>,
    \<^verbatim>\<open>filter\<close> or \<^verbatim>\<open>apply\<close> as methods of their own are not represented;
  \<^item> a function written by the user is \<open>JFun name params src ident\<close>: its \<^verbatim>\<open>name\<close>
    property, the names of its declared formal parameters, the text \<open>src\<close> that
    \<^verbatim>\<open>toString()\<close> returns for it, and an identifier that tells closures with the same
    text apart. The module reads the name and the text only; the declared parameters are
    what the specification speaks about. Functions carry no own properties that shadow
    the inherited ones;
  \<^item> \<open>JNative name\<close> is a function implemented by the runtime;
  \<^item> \<open>JFailback n\<close> is the closure \<^verbatim>\<open>errorSubscriberFailback\<close> that
    \<^verbatim>\<open>makeErrorSubscriberFailback(n)\<close> returns;
  \<^item> \<open>JTypeError\<close> is a \<^verbatim>\<open>TypeError\<close> raised by the runtime (its message is not modelled).
\<close>

datatype jsval =
    JUndefined
  | JNull
  | JBool bool
  | JNum int
  | JStr string
  | JArr "jsval list"
  | JObj "(string \<times> jsval) list"
  | JFun string "string list" string nat
  | JNative string
  | JFailback jsval
  | JTypeError

text \<open>The completion of a call: a returned value or a thrown one.\<close>

datatype 'a result = Return 'a | Throw jsval

text \<open>One call of \<^verbatim>\<open>console.warn\<close>, \<^verbatim>\<open>console.error\<close> or \<^verbatim>\<open>console.log\<close>, with its argument.\<close>

datatype entry = Warn jsval | Err jsval | Log jsval

subsection \<open>Truthiness, callability, member access\<close>

fun truthy :: "jsval \<Rightarrow> bool" where
  "truthy JUndefined = False"
| "truthy JNull = False"
| "truthy (JBool b) = b"
| "truthy (JNum n) = (n \<noteq> 0)"
| "truthy (JStr s) = (s \<noteq> [])"
| "truthy _ = True"

fun nullish :: "jsval \<Rightarrow> bool" where
  "nullish JUndefined = True"
| "nullish JNull = True"
| "nullish _ = False"

text \<open>The values that can be called: \<^verbatim>\<open>typeof v === 'function'\<close>.\<close>

fun callable :: "jsval \<Rightarrow> bool" where
  "callable (JFun name params src ident) = True"
| "callable (JNative name) = True"
| "callable (JFailback n) = True"
| "callable _ = False"

fun isArray :: "jsval \<Rightarrow> bool" where
  "isArray (JArr xs) = True"
| "isArray _ = False"

text \<open>
  \<open>property v k\<close> is the member access \<^verbatim>\<open>v.k\<close> for a value \<open>v\<close> that is neither
  \<^verbatim>\<open>undefined\<close> nor \<^verbatim>\<open>null\<close> (on those the access throws; every use below is guarded).
  Own properties of an object come first, then what the prototype chain gives for the
  members the module reads.
\<close>

definition functionMember :: "string \<Rightarrow> string \<Rightarrow> jsval" where
  "functionMember name k =
     (if k = ''name'' then JStr name
      else if k = ''constructor'' then JNative ''Function''
      else if k = ''call'' then JNative ''call''
      else if k = ''apply'' then JNative ''apply''
      else JUndefined)"

fun property :: "jsval \<Rightarrow> string \<Rightarrow> jsval" where
  "property (JObj ps) k =
     (case map_of ps k of
        Some v \<Rightarrow> v
      | None \<Rightarrow> if k = ''constructor'' then JNative ''Object'' else JUndefined)"
| "property (JArr xs) k =
     (if k = ''constructor'' then JNative ''Array''
      else if k = ''length'' then JNum (int (length xs))
      else JUndefined)"
| "property (JBool b) k = (if k = ''constructor'' then JNative ''Boolean'' else JUndefined)"
| "property (JNum n) k = (if k = ''constructor'' then JNative ''Number'' else JUndefined)"
| "property (JStr s) k =
     (if k = ''constructor'' then JNative ''String''
      else if k = ''length'' then JNum (int (length s))
      else JUndefined)"
| "property (JFun name params src ident) k = functionMember name k"
| "property (JNative name) k = functionMember name k"
| "property (JFailback n) k = functionMember ''errorSubscriberFailback'' k"
| "property JTypeError k =
     (if k = ''constructor'' then JNative ''TypeError''
      else if k = ''name'' then JStr ''TypeError''
      else JUndefined)"
| "property JUndefined k = JUndefined"
| "property JNull k = JUndefined"

subsection \<open>Conversion to text\<close>

function showNat :: "nat \<Rightarrow> string" where
  "showNat n = (if n < 10 then [''0123456789'' ! n] else showNat (n div 10) @ [''0123456789'' ! (n mod 10)])"
  by pat_completeness auto
termination
  by (relation "measure id") auto

declare showNat.simps [simp del]

definition showInt :: "int \<Rightarrow> string" where
  "showInt i = (if i < 0 then CHR ''-'' # showNat (nat (- i)) else showNat (nat i))"

fun joinWith :: "string \<Rightarrow> string list \<Rightarrow> string" where
  "joinWith sep [] = []"
| "joinWith sep [x] = x"
| "joinWith sep (x # y # ys) = x @ sep @ joinWith sep (y # ys)"

text \<open>
  The text of \<^verbatim>\<open>errorSubscriberFailback\<close>, lines 163 to 177 of the source, as
  \<^verbatim>\<open>toString()\<close> returns it for the closure.
\<close>

definition newline :: string where
  "newline = [CHR 0x0A]"

definition errorSubscriberFailbackText :: string where
  "errorSubscriberFailbackText =
     ''function errorSubscriberFailback(error, data) {'' @ newline @
     ''        if (!_isLoggingEnabled) {'' @ newline @
     ''            return;'' @ newline @
     ''        }'' @ newline @
     newline @
     ''        if (error) {'' @ newline @
     ''            console.error(`Error subscriber ${errorSubscriberName} failed with error`);'' @ newline @
     ''            console.error(error);'' @ newline @
     ''        }'' @ newline @
     newline @
     ''        if (data) {'' @ newline @
     ''            console.log(`Error subscriber ${errorSubscriberName} succeeded with`);'' @ newline @
     ''            console.log(data);'' @ newline @
     ''        }'' @ newline @
     ''    }''"

text \<open>
  \<open>toStr v\<close> is the string a template literal \<^verbatim>\<open>`${v}`\<close> produces, and also what
  \<^verbatim>\<open>v.toString()\<close> returns when \<open>v\<close> is neither \<^verbatim>\<open>undefined\<close> nor \<^verbatim>\<open>null\<close>.
\<close>

fun toStr :: "jsval \<Rightarrow> string" where
  "toStr JUndefined = ''undefined''"
| "toStr JNull = ''null''"
| "toStr (JBool b) = (if b then ''true'' else ''false'')"
| "toStr (JNum n) = showInt n"
| "toStr (JStr s) = s"
| "toStr (JArr xs) = joinWith '','' (map (\<lambda>x. if nullish x then [] else toStr x) xs)"
| "toStr (JObj ps) = ''[object Object]''"
| "toStr (JFun name params src ident) = src"
| "toStr (JNative name) = ''function '' @ name @ ''() { [native code] }''"
| "toStr (JFailback n) = errorSubscriberFailbackText"
| "toStr JTypeError = ''TypeError''"

section \<open>The signature inspector: \<^verbatim>\<open>getArgumentNames\<close>\<close>

subsection \<open>The regular expressions, as backtracking matchers\<close>

text \<open>\<^verbatim>\<open>\s\<close> on 8-bit characters: tab, line feed, vertical tab, form feed, carriage return,
  space and no-break space. \<^verbatim>\<open>.\<close> matches everything but a line terminator.\<close>

definition isWhiteSpace :: "char \<Rightarrow> bool" where
  "isWhiteSpace c = (c \<in> set [CHR 0x09, CHR 0x0A, CHR 0x0B, CHR 0x0C, CHR 0x0D, CHR 0x20, CHR 0xA0])"

definition isLineTerminator :: "char \<Rightarrow> bool" where
  "isLineTerminator c = (c = CHR 0x0A \<or> c = CHR 0x0D)"

text \<open>\<^verbatim>\<open>([^)]*)\)\<close>: the group takes every character up to the first closing parenthesis,
  which must be there. The result is the group.\<close>

definition captureArgs :: "string \<Rightarrow> string option" where
  "captureArgs s =
     (if dropWhile (\<lambda>c. c \<noteq> CHR '')'') s = [] then None
      else Some (takeWhile (\<lambda>c. c \<noteq> CHR '')'') s))"

text \<open>\<^verbatim>\<open>.*?\(([^)]*)\)\<close>: the lazy \<^verbatim>\<open>.*?\<close> first tries to stop here, and otherwise
  consumes one character that is not a line terminator and tries again.\<close>

fun lazyToParen :: "string \<Rightarrow> string option" where
  "lazyToParen [] = None"
| "lazyToParen (c # cs) =
     (case (if c = CHR ''('' then captureArgs cs else None) of
        Some args \<Rightarrow> Some args
      | None \<Rightarrow> if isLineTerminator c then None else lazyToParen cs)"

text \<open>The whole pattern \<^verbatim>\<open>function\s.*?\(([^)]*)\)\<close>, anchored at the start of \<open>s\<close>.\<close>

definition matchHere :: "string \<Rightarrow> string option" where
  "matchHere s =
     (if prefix ''function'' s then
        (case drop 8 s of
           [] \<Rightarrow> None
         | w # rest \<Rightarrow> if isWhiteSpace w then lazyToParen rest else None)
      else None)"

text \<open>\<^verbatim>\<open>text.match(/function\s.*?\(([^)]*)\)/)\<close>: the leftmost position where the pattern
  matches; \<open>None\<close> is the \<^verbatim>\<open>null\<close> that \<^verbatim>\<open>match\<close> returns when there is none. The result
  is group 1 of the match.\<close>

fun matchFunctionArgs :: "string \<Rightarrow> string option" where
  "matchFunctionArgs [] = None"
| "matchFunctionArgs (c # cs) =
     (case matchHere (c # cs) of
        Some args \<Rightarrow> Some args
      | None \<Rightarrow> matchFunctionArgs cs)"

text \<open>\<^verbatim>\<open>.*\*\/\<close> after an opening \<^verbatim>\<open>/*\<close>: the greedy \<^verbatim>\<open>.*\<close> first consumes a character
  (not a line terminator) and only then tries to close the comment here. The result is
  the text after the match.\<close>

fun greedyClose :: "string \<Rightarrow> string option" where
  "greedyClose [] = None"
| "greedyClose (c # cs) =
     (case (if isLineTerminator c then None else greedyClose cs) of
        Some rest \<Rightarrow> Some rest
      | None \<Rightarrow> if prefix ''*/'' (c # cs) then Some (drop 2 (c # cs)) else None)"

definition commentHere :: "string \<Rightarrow> string option" where
  "commentHere s = (if prefix ''/*'' s then greedyClose (drop 2 s) else None)"

text \<open>\<^verbatim>\<open>arg.replace(/\/\*.*\*\//, '')\<close>: the leftmost match is removed, once.\<close>

fun stripComment :: "string \<Rightarrow> string" where
  "stripComment [] = []"
| "stripComment (c # cs) =
     (case commentHere (c # cs) of
        Some rest \<Rightarrow> rest
      | None \<Rightarrow> c # stripComment cs)"

definition trim :: "string \<Rightarrow> string" where
  "trim s = rev (dropWhile isWhiteSpace (rev (dropWhile isWhiteSpace s)))"

text \<open>\<^verbatim>\<open>args.split(',')\<close>; the empty string splits into one empty token.\<close>

fun splitComma :: "string \<Rightarrow> string list" where
  "splitComma [] = [[]]"
| "splitComma (c # cs) =
     (if c = CHR '','' then [] # splitComma cs
      else (case splitComma cs of
              [] \<Rightarrow> [[c]]
            | t # ts \<Rightarrow> (c # t) # ts))"

subsection \<open>The function\<close>

text \<open>
  The guarded statement \<^verbatim>\<open>args = targetFunction.toString().match(...)[1]\<close>: it throws a
  \<^verbatim>\<open>TypeError\<close> when \<^verbatim>\<open>targetFunction\<close> is \<^verbatim>\<open>undefined\<close> or \<^verbatim>\<open>null\<close>, and when
  \<^verbatim>\<open>match\<close> returns \<^verbatim>\<open>null\<close>.
\<close>

definition matchedArgs :: "jsval \<Rightarrow> string result" where
  "matchedArgs targetFunction =
     (if nullish targetFunction then Throw JTypeError
      else (case matchFunctionArgs (toStr targetFunction) of
              None \<Rightarrow> Throw JTypeError
            | Some args \<Rightarrow> Return args))"

definition argsTrimCommentsAndWhiteSpace :: "string \<Rightarrow> string" where
  "argsTrimCommentsAndWhiteSpace arg = trim (stripComment arg)"

definition filterUndefined :: "string \<Rightarrow> bool" where
  "filterUndefined arg = (arg \<noteq> [])"

definition getArgumentNames :: "jsval \<Rightarrow> string list" where
  "getArgumentNames targetFunction =
     (case matchedArgs targetFunction of
        Throw error \<Rightarrow> []
      | Return args \<Rightarrow>
          filter filterUndefined (map argsTrimCommentsAndWhiteSpace (splitComma args)))"

section \<open>The function-type predicate: \<^verbatim>\<open>isFunction\<close>\<close>

text \<open>\<^verbatim>\<open>!!(obj && obj.constructor && obj.call && obj.apply)\<close>: the members are read only
  when \<open>obj\<close> is truthy, hence neither \<^verbatim>\<open>undefined\<close> nor \<^verbatim>\<open>null\<close>.\<close>

definition isFunction :: "jsval \<Rightarrow> bool" where
  "isFunction obj =
     (truthy obj \<and> truthy (property obj ''constructor'') \<and>
      truthy (property obj ''call'') \<and> truthy (property obj ''apply''))"

section \<open>The configuration and the subscriber list builder\<close>

text \<open>The three module-level variables \<^verbatim>\<open>_isEnabled\<close>, \<^verbatim>\<open>_isLoggingEnabled\<close> and
  \<^verbatim>\<open>_errorSubscribers\<close>, with their initial values.\<close>

record config =
  isEnabled :: bool
  isLoggingEnabled :: bool
  errorSubscribers :: "jsval list"

definition initialConfig :: config where
  "initialConfig = \<lparr>isEnabled = False, isLoggingEnabled = False, errorSubscribers = []\<rparr>"

text \<open>\<^verbatim>\<open>subscriberFunctionArgumentNames[0] !== 'error'\<close>; element 0 of an empty array is
  \<^verbatim>\<open>undefined\<close>, which differs from the string.\<close>

definition firstIsNotError :: "string list \<Rightarrow> bool" where
  "firstIsNotError names = (case names of [] \<Rightarrow> True | n # ns \<Rightarrow> n \<noteq> ''error'')"

text \<open>The callback given to \<^verbatim>\<open>filter\<close>: whether the candidate is kept, and the warnings
  written.\<close>

definition errorSubscriberFunctionsFilter :: "config \<Rightarrow> jsval \<Rightarrow> nat \<Rightarrow> bool \<times> entry list" where
  "errorSubscriberFunctionsFilter c subscriberCallback index =
     (if \<not> isFunction subscriberCallback then
        (False,
         if isLoggingEnabled c then
           [Warn (JStr (''Skipping error subscriber: '' @ toStr subscriberCallback @
                        '' at errorSubscribers index '' @ showNat index)),
            Warn (JStr ''Subscriber is not a function'')]
         else [])
      else if firstIsNotError (getArgumentNames subscriberCallback) then
        (False,
         if isLoggingEnabled c then
           [Warn (JStr (''Skipping error subscriber: '' @ toStr (property subscriberCallback ''name''))),
            Warn (JStr ''First argument of subscriber function must be named error'')]
         else [])
      else (True, []))"

text \<open>\<^verbatim>\<open>Array.prototype.filter\<close> with that callback, from index \<open>i\<close> on.\<close>

fun filterFrom :: "config \<Rightarrow> nat \<Rightarrow> jsval list \<Rightarrow> jsval list \<times> entry list" where
  "filterFrom c i [] = ([], [])"
| "filterFrom c i (x # xs) =
     (case errorSubscriberFunctionsFilter c x i of
        (keep, out) \<Rightarrow>
          (case filterFrom c (Suc i) xs of
             (kept, outs) \<Rightarrow> (if keep then x # kept else kept, out @ outs)))"

text \<open>\<^verbatim>\<open>buildSubscriberList(errorSubscriberFunctions = [])\<close>. The default applies to
  \<^verbatim>\<open>undefined\<close> only. A value that is not an array has no method \<^verbatim>\<open>filter\<close>, and the call
  \<^verbatim>\<open>errorSubscriberFunctions.filter(...)\<close> throws a \<^verbatim>\<open>TypeError\<close>.\<close>

definition buildSubscriberList :: "config \<Rightarrow> jsval \<Rightarrow> jsval list result \<times> entry list" where
  "buildSubscriberList c errorSubscriberFunctions =
     (case (if errorSubscriberFunctions = JUndefined then JArr [] else errorSubscriberFunctions) of
        JArr xs \<Rightarrow> (case filterFrom c 0 xs of (kept, out) \<Rightarrow> (Return kept, out))
      | _ \<Rightarrow> (Throw JTypeError, []))"

section \<open>The setters and \<^verbatim>\<open>initErrorCatchNotifier\<close>\<close>

definition enableLogging :: "config \<Rightarrow> config" where
  "enableLogging c = c\<lparr>isLoggingEnabled := True\<rparr>"

definition disableLogging :: "config \<Rightarrow> config" where
  "disableLogging c = c\<lparr>isLoggingEnabled := False\<rparr>"

definition enableErrorCatching :: "config \<Rightarrow> entry list \<times> config" where
  "enableErrorCatching c =
     (if length (errorSubscribers c) = 0 then
        ((if isLoggingEnabled c then
            [Warn (JStr ''No valid error subscribers provided. Use init to pass valid error subscribers'')]
          else []),
         c\<lparr>isEnabled := False\<rparr>)
      else ([], c\<lparr>isEnabled := True\<rparr>))"

text \<open>\<^verbatim>\<open>disableErrorCatching\<close> returns \<^verbatim>\<open>true\<close>; no caller in the module reads it.\<close>

definition disableErrorCatching :: "config \<Rightarrow> config" where
  "disableErrorCatching c = c\<lparr>isEnabled := False\<rparr>"

definition getIsEnabled :: "config \<Rightarrow> bool" where
  "getIsEnabled c = isEnabled c"

definition getIsLoggingEnabled :: "config \<Rightarrow> bool" where
  "getIsLoggingEnabled c = isLoggingEnabled c"

text \<open>
  \<^verbatim>\<open>initErrorCatchNotifier(errorSubscriberFunctions = [], enabled = false, loggingEnabled = false)\<close>.
  The result is the completion of the call, the console entries written and the
  configuration the call leaves. The \<^verbatim>\<open>return\<close> of the array check stands inside
  \<^verbatim>\<open>if (_isLoggingEnabled)\<close>: without logging the function goes on to
  \<^verbatim>\<open>buildSubscriberList\<close> with the value that is not an array.
\<close>

definition initErrorCatchNotifier ::
    "jsval \<Rightarrow> jsval \<Rightarrow> jsval \<Rightarrow> config \<Rightarrow> jsval result \<times> entry list \<times> config" where
  "initErrorCatchNotifier errorSubscriberFunctions enabled loggingEnabled c =
     (let candidates = (if errorSubscriberFunctions = JUndefined then JArr [] else errorSubscriberFunctions);
          c1 = (if truthy loggingEnabled then enableLogging c else disableLogging c)
      in if \<not> isArray candidates \<and> isLoggingEnabled c1 then
           (Return JUndefined,
            [Err (JStr ''errorSubscriberFunctions must be an array of functions'')], c1)
         else
           (case buildSubscriberList c1 candidates of
              (Throw error, out) \<Rightarrow> (Throw error, out, c1)
            | (Return subscribers, out) \<Rightarrow>
                (let c2 = c1\<lparr>errorSubscribers := subscribers\<rparr>
                 in if truthy enabled then
                      (case enableErrorCatching c2 of (out', c3) \<Rightarrow> (Return JUndefined, out @ out', c3))
                    else (Return JUndefined, out, disableErrorCatching c2))))"

section \<open>The failback factory\<close>

definition makeErrorSubscriberFailback :: "jsval \<Rightarrow> jsval" where
  "makeErrorSubscriberFailback errorSubscriberName = JFailback errorSubscriberName"

text \<open>The body of the closure: the console entries one call \<^verbatim>\<open>failback(error, data)\<close>
  writes.\<close>

definition errorSubscriberFailback :: "jsval \<Rightarrow> jsval \<Rightarrow> jsval \<Rightarrow> config \<Rightarrow> entry list" where
  "errorSubscriberFailback errorSubscriberName error data c =
     (if \<not> isLoggingEnabled c then []
      else
        (if truthy error then
           [Err (JStr (''Error subscriber '' @ toStr errorSubscriberName @ '' failed with error'')),
            Err error]
         else []) @
        (if truthy data then
           [Log (JStr (''Error subscriber '' @ toStr errorSubscriberName @ '' succeeded with'')),
            Log data]
         else []))"

section \<open>Calling user code: the notifier and the wrapper\<close>

text \<open>
  What a function of the user does when it is called is a parameter of the model:
  \<open>env f this args c\<close> is the completion of the call of \<open>f\<close> with receiver \<open>this\<close> and
  arguments \<open>args\<close> in configuration \<open>c\<close>, and the console entries the call writes (its own,
  and those of a failback it calls before it returns). User code reads the configuration
  and does not change it: a callback that reconfigures the module while the module calls it
  is outside this model.

  What the module does is observed as a list of events in the order they happen: a call
  of a function value, or a console entry.
\<close>

type_synonym usercode = "jsval \<Rightarrow> jsval \<Rightarrow> jsval list \<Rightarrow> config \<Rightarrow> jsval result \<times> entry list"

datatype event = Invoke jsval jsval "jsval list" | Console entry

text \<open>A missing argument reads as \<^verbatim>\<open>undefined\<close>.\<close>

definition argument :: "jsval list \<Rightarrow> nat \<Rightarrow> jsval" where
  "argument args i = (if i < length args then args ! i else JUndefined)"

text \<open>The call \<^verbatim>\<open>f.apply(this, args)\<close>: a \<^verbatim>\<open>TypeError\<close> when \<open>f\<close> cannot be called.\<close>

definition callFunction :: "usercode \<Rightarrow> config \<Rightarrow> jsval \<Rightarrow> jsval \<Rightarrow> jsval list \<Rightarrow> jsval result \<times> event list" where
  "callFunction env c f this args =
     (case f of
        JFailback n \<Rightarrow>
          (Return JUndefined,
           Invoke f this args #
             map Console (errorSubscriberFailback n (argument args 0) (argument args 1) c))
      | _ \<Rightarrow>
          if callable f then
            (case env f this args c of (r, out) \<Rightarrow> (r, Invoke f this args # map Console out))
          else (Throw JTypeError, []))"

text \<open>
  The statement inside \<^verbatim>\<open>try\<close>:
  \<^verbatim>\<open>errorSubscriber(error, options, makeErrorSubscriberFailback(errorSubscriber.name))\<close>.
  Reading \<^verbatim>\<open>errorSubscriber.name\<close> throws when the subscriber is \<^verbatim>\<open>undefined\<close> or \<^verbatim>\<open>null\<close>.
\<close>

definition callSubscriber :: "usercode \<Rightarrow> config \<Rightarrow> jsval \<Rightarrow> jsval \<Rightarrow> jsval \<Rightarrow> jsval result \<times> event list" where
  "callSubscriber env c errorSubscriber error options =
     (if nullish errorSubscriber then (Throw JTypeError, [])
      else callFunction env c errorSubscriber JUndefined
             [error, options, makeErrorSubscriberFailback (property errorSubscriber ''name'')])"

text \<open>
  The loop of \<^verbatim>\<open>notifyErrorSubscribers\<close> over the subscribers still to visit. In the
  \<^verbatim>\<open>catch\<close> block, \<^verbatim>\<open>return\<close> leaves the function when logging is off; with logging on the
  two lines are written and the loop goes on with the next subscriber. The template literal
  of the first line reads \<^verbatim>\<open>errorSubscriber.name\<close> again, outside any \<^verbatim>\<open>try\<close>.
\<close>

fun notifyFrom :: "usercode \<Rightarrow> config \<Rightarrow> jsval \<Rightarrow> jsval \<Rightarrow> jsval list \<Rightarrow> jsval result \<times> event list" where
  "notifyFrom env c error options [] = (Return JUndefined, [])"
| "notifyFrom env c error options (errorSubscriber # rest) =
     (case callSubscriber env c errorSubscriber error options of
        (Return v, tr) \<Rightarrow>
          (case notifyFrom env c error options rest of (r, tr') \<Rightarrow> (r, tr @ tr'))
      | (Throw catchError, tr) \<Rightarrow>
          if \<not> isLoggingEnabled c then (Return JUndefined, tr)
          else if nullish errorSubscriber then (Throw JTypeError, tr)
          else
            (case notifyFrom env c error options rest of
               (r, tr') \<Rightarrow>
                 (r, tr @
                     [Console (Err (JStr (''Skipping error subscriber: '' @
                                          toStr (property errorSubscriber ''name'')))),
                      Console (Err catchError)] @ tr')))"

definition notifyErrorSubscribers :: "usercode \<Rightarrow> jsval \<Rightarrow> jsval \<Rightarrow> config \<Rightarrow> jsval result \<times> event list" where
  "notifyErrorSubscribers env error options c = notifyFrom env c error options (errorSubscribers c)"

text \<open>
  \<^verbatim>\<open>wrap(targetFunction, options)\<close> returns the closure \<^verbatim>\<open>wrappedFunction\<close>;
  \<open>wrappedFunction env targetFunction options this args c\<close> is one call of that closure
  with receiver \<open>this\<close> and arguments \<open>args\<close> in configuration \<open>c\<close>. The variable
  \<^verbatim>\<open>value\<close> is still \<^verbatim>\<open>undefined\<close> when the target has thrown.
\<close>

definition wrappedFunction ::
    "usercode \<Rightarrow> jsval \<Rightarrow> jsval \<Rightarrow> jsval \<Rightarrow> jsval list \<Rightarrow> config \<Rightarrow> jsval result \<times> event list" where
  "wrappedFunction env targetFunction options this args c =
     (if \<not> isEnabled c then callFunction env c targetFunction this args
      else
        (case callFunction env c targetFunction this args of
           (Return v, tr) \<Rightarrow> (Return v, tr)
         | (Throw error, tr) \<Rightarrow>
             (case notifyErrorSubscribers env error options c of
                (Return u, tr') \<Rightarrow> (Return JUndefined, tr @ tr')
              | (Throw e, tr') \<Rightarrow> (Throw e, tr @ tr'))))"

definition wrap ::
    "usercode \<Rightarrow> jsval \<Rightarrow> jsval \<Rightarrow> (jsval \<Rightarrow> jsval list \<Rightarrow> config \<Rightarrow> jsval result \<times> event list)" where
  "wrap env targetFunction options = wrappedFunction env targetFunction options"

section \<open>Reachable configurations\<close>

text \<open>The configurations the public operations can produce from the initial one. A call of
  \<^verbatim>\<open>initErrorCatchNotifier\<close> that throws still leaves a configuration behind.\<close>

inductive reachable :: "config \<Rightarrow> bool" where
  reachable_initial: "reachable initialConfig"
| reachable_enableLogging: "reachable c \<Longrightarrow> reachable (enableLogging c)"
| reachable_disableLogging: "reachable c \<Longrightarrow> reachable (disableLogging c)"
| reachable_enableErrorCatching: "reachable c \<Longrightarrow> reachable (snd (enableErrorCatching c))"
| reachable_disableErrorCatching: "reachable c \<Longrightarrow> reachable (disableErrorCatching c)"
| reachable_init:
    "reachable c \<Longrightarrow> reachable (snd (snd (initErrorCatchNotifier candidates enabled loggingEnabled c)))"

section \<open>Auxiliary notions for the statements\<close>

text \<open>Whether a completion is a normal return.\<close>

fun returns :: "'a result \<Rightarrow> bool" where
  "returns (Return v) = True"
| "returns (Throw e) = False"

text \<open>
  The declared formal parameters of a callable value. For the failback closure they are
  those of line 163 of the source; the runtime shows none for its own functions.
\<close>

fun declaredParameters :: "jsval \<Rightarrow> string list" where
  "declaredParameters (JFun name params src ident) = params"
| "declaredParameters (JFailback n) = [''error'', ''data'']"
| "declaredParameters _ = []"






text \<open>The two lines the \<^verbatim>\<open>catch\<close> block of \<^verbatim>\<open>notifyErrorSubscribers\<close> writes.\<close>

definition skippingLines :: "jsval \<Rightarrow> jsval \<Rightarrow> event list" where
  "skippingLines errorSubscriber catchError =
     [Console (Err (JStr (''Skipping error subscriber: '' @ toStr (property errorSubscriber ''name'')))),
      Console (Err catchError)]"

text \<open>The invariant of the configuration: catching is on only with a subscriber to
  notify, and every stored subscriber is callable.\<close>

definition consistent :: "config \<Rightarrow> bool" where
  "consistent c =
     ((isEnabled c \<longrightarrow> errorSubscribers c \<noteq> []) \<and> list_all callable (errorSubscribers c))"

section \<open>Values of the test suite, used as concrete inputs\<close>

definition exampleSubscriber :: jsval where
  "exampleSubscriber = JFun ''errorSubscriber'' [''error''] ''function errorSubscriber(error) {}'' 1"

definition exampleBadSubscriber :: jsval where
  "exampleBadSubscriber = JFun ''badErrorSubscriber'' [] ''function badErrorSubscriber() {}'' 2"

definition exampleFailingSubscriber :: jsval where
  "exampleFailingSubscriber =
     JFun ''failingSubscriber'' [''error'']
       ''function failingSubscriber(error) { throw subscriberFailure; }'' 3"

definition exampleTarget :: jsval where
  "exampleTarget = JFun ''errorFunction'' [] ''function () { throw testError; }'' 4"

text \<open>The fixture of the test \<^verbatim>\<open>ignores inline comments\<close>, an arrow function, an arrow
  function that returns a function, and a function with no parameter whose parentheses
  hold a comment.\<close>

definition inlineCommentFixture :: jsval where
  "inlineCommentFixture =
     JFun ''functionFixture'' [''argument1'', ''argument2'']
       ''function (argument1 /*inline comment*/, argument2) { return true; }'' 5"

definition arrowSubscriber :: jsval where
  "arrowSubscriber = JFun [] [''error''] ''(error) => {}'' 6"

definition nestedSubscriber :: jsval where
  "nestedSubscriber = JFun [] [''data''] ''(data) => function inner(error) {}'' 7"

definition commentedNoArgs :: jsval where
  "commentedNoArgs = JFun ''noArgs'' [] ''function noArgs(/* a, b */) {}'' 8"

definition exampleError :: jsval where
  "exampleError = JObj [(''message'', JStr ''testError'')]"

definition subscriberFailure :: jsval where
  "subscriberFailure = JObj [(''message'', JStr ''subscriberFailure'')]"

text \<open>The user code of the examples: the target throws \<open>exampleError\<close>, the failing
  subscriber throws \<open>subscriberFailure\<close>, every other function returns \<^verbatim>\<open>undefined\<close>.\<close>

definition exampleCode :: usercode where
  "exampleCode f this args c =
     (if f = exampleTarget then (Throw exampleError, [])
      else if f = exampleFailingSubscriber then (Throw subscriberFailure, [])
      else (Return JUndefined, []))"

definition silentConfig :: config where
  "silentConfig =
     \<lparr>isEnabled = True, isLoggingEnabled = False,
      errorSubscribers = [exampleFailingSubscriber, exampleSubscriber]\<rparr>"

definition loggingConfig :: config where
  "loggingConfig =
     \<lparr>isEnabled = True, isLoggingEnabled = True,
      errorSubscribers = [exampleFailingSubscriber, exampleSubscriber]\<rparr>"

section \<open>The function-type predicate\<close>


lemma isFunction_cases: "isFunction x \<Longrightarrow> callable x \<or> (\<exists>ps. x = JObj ps)"
  by (cases x) (simp_all add: isFunction_def)

lemma callable_not_nullish: "callable s \<Longrightarrow> \<not> nullish s"
  by (cases s) simp_all

text \<open>
  Claim C7 says that \<^verbatim>\<open>isFunction\<close> returns true if and only if the value is callable,
  and false for every plain mapping. The docstring of the function says the same
  (\<^verbatim>\<open>true if obj is a function; false if not\<close>), and so does the test
  \<^verbatim>\<open>returns false when applied to an object or array\<close>. The code tests the members
  \<^verbatim>\<open>constructor\<close>, \<^verbatim>\<open>call\<close> and \<^verbatim>\<open>apply\<close> for truthiness instead: evaluated on the plain
  object \<^verbatim>\<open>{call: true, apply: true}\<close>, which is not callable, it returns true. On the
  values of the tests (an empty object, an empty array, a function) it answers as the
  claim says.
\<close>

theorem isFunction_accepts_plain_object:
  "\<not> callable (JObj [(''call'', JBool True), (''apply'', JBool True)])
   \<and> isFunction (JObj [(''call'', JBool True), (''apply'', JBool True)])
   \<and> \<not> isFunction (JObj []) \<and> \<not> isFunction (JArr []) \<and> isFunction exampleTarget"
  by code_simp

section \<open>The signature inspector\<close>

subsection \<open>What the inspector reads from a plain declaration\<close>

















subsection \<open>What it reads from a comment\<close>

text \<open>
  Claim C8 says that \<^verbatim>\<open>getArgumentNames\<close> returns the empty sequence for a parseable
  function with no argument, and for arrow forms. The docstring promises the names of the
  function definition's arguments, and the comment in the code that no inline comment is
  parsed. The code splits the parameter text on commas before it removes the comments, and
  it searches the pattern anywhere in the text. Evaluated on
  \<^verbatim>\<open>function noArgs(/* a, b */) {}\<close>, which declares no parameter, it returns the two
  halves of the comment; on the arrow function \<^verbatim>\<open>(data) => function inner(error) {}\<close>,
  which declares \<^verbatim>\<open>data\<close>, it returns the parameter of the function in the body. The other
  lines are the cases where the code does what the claim says: no parameter and no
  comment, a comment without a comma (the test \<^verbatim>\<open>ignores inline comments\<close>), and an
  arrow function with no function expression in it.
\<close>

theorem getArgumentNames_reads_comment:
  "declaredParameters commentedNoArgs = []
   \<and> getArgumentNames commentedNoArgs = [''/* a'', ''b */'']
   \<and> getArgumentNames exampleBadSubscriber = []
   \<and> getArgumentNames inlineCommentFixture = [''argument1'', ''argument2'']
   \<and> declaredParameters nestedSubscriber = [''data'']
   \<and> getArgumentNames nestedSubscriber = [''error'']
   \<and> getArgumentNames arrowSubscriber = []"
  by code_simp

section \<open>The subscriber list builder\<close>

lemma plain_object_text_no_match: "matchFunctionArgs ''[object Object]'' = None"
  by (simp add: matchHere_def)

lemma object_no_names: "getArgumentNames (JObj ps) = []"
  by (simp add: getArgumentNames_def matchedArgs_def plain_object_text_no_match
      del: matchFunctionArgs.simps)

lemma filter_keeps:
  "fst (errorSubscriberFunctionsFilter c x i) \<longleftrightarrow>
     isFunction x \<and> \<not> firstIsNotError (getArgumentNames x)"
  by (simp add: errorSubscriberFunctionsFilter_def)

lemma kept_callable:
  assumes "isFunction x" and "\<not> firstIsNotError (getArgumentNames x)"
  shows "callable x"
proof (rule ccontr)
  assume "\<not> callable x"
  with assms(1) obtain ps where "x = JObj ps"
    using isFunction_cases by blast
  with assms(2) show False
    by (simp add: object_no_names firstIsNotError_def)
qed

lemma filterFrom_kept:
  "fst (filterFrom c i xs) =
     filter (\<lambda>x. isFunction x \<and> \<not> firstIsNotError (getArgumentNames x)) xs"
proof (induction xs arbitrary: i)
  case Nil
  show ?case by simp
next
  case (Cons x xs)
  from Cons.IH [of "Suc i"] filter_keeps [of c x i]
  show ?case
    by (simp add: case_prod_unfold)
qed










section \<open>Initialisation with a value that is not an array\<close>

text \<open>
  Claim C1 says that \<^verbatim>\<open>initErrorCatchNotifier\<close>, called with a value that is not an array,
  never raises an exception, also when \<^verbatim>\<open>loggingEnabled\<close> is false. The code returns early
  only when logging is enabled: for every value that is not an array (and not
  \<^verbatim>\<open>undefined\<close>, which the default replaces by the empty array), the call with a truthy
  \<^verbatim>\<open>loggingEnabled\<close> reports the error and returns, and the call with a falsy one goes on
  to \<^verbatim>\<open>buildSubscriberList\<close> and throws a \<^verbatim>\<open>TypeError\<close> to its caller. In both cases the
  subscriber list and the catching flag are unchanged.
\<close>

theorem init_not_array:
  "\<not> isArray v \<and> v \<noteq> JUndefined \<longrightarrow>
     initErrorCatchNotifier v enabled loggingEnabled c =
       (if truthy loggingEnabled then
          (Return JUndefined,
           [Err (JStr ''errorSubscriberFunctions must be an array of functions'')],
           c\<lparr>isLoggingEnabled := True\<rparr>)
        else (Throw JTypeError, [], c\<lparr>isLoggingEnabled := False\<rparr>))"
  by (cases v)
     (simp_all add: initErrorCatchNotifier_def buildSubscriberList_def enableLogging_def
       disableLogging_def Let_def)

text \<open>The object of the test \<^verbatim>\<open>reports an error if errorSubscriberFunctions is not an array\<close>,
  without logging and with it.\<close>

theorem init_not_array_without_logging_throws:
  "\<not> isArray (JObj [(''errorSubscriber'', exampleSubscriber)])
   \<and> JObj [(''errorSubscriber'', exampleSubscriber)] \<noteq> JUndefined
   \<and> \<not> truthy (JBool False)
   \<and> initErrorCatchNotifier (JObj [(''errorSubscriber'', exampleSubscriber)]) (JBool True) (JBool False)
       silentConfig = (Throw JTypeError, [], silentConfig)
   \<and> initErrorCatchNotifier (JObj [(''errorSubscriber'', exampleSubscriber)]) (JBool True) (JBool True)
       silentConfig =
       (Return JUndefined, [Err (JStr ''errorSubscriberFunctions must be an array of functions'')],
        silentConfig\<lparr>isLoggingEnabled := True\<rparr>)"
  using init_not_array [of "JObj [(''errorSubscriber'', exampleSubscriber)]" "JBool True" "JBool False"
      silentConfig]
    init_not_array [of "JObj [(''errorSubscriber'', exampleSubscriber)]" "JBool True" "JBool True"
      silentConfig]
  by (simp add: silentConfig_def)

section \<open>The wrapper with catching disabled\<close>

text \<open>
  Claim C4: when catching is disabled at call time, a call of the function produced by
  \<^verbatim>\<open>wrap(fn)\<close> is the call of \<open>fn\<close> with the same receiver and the same arguments: the
  same completion (the value returned, or the error thrown, unchanged) and the same
  events.
\<close>

theorem wrap_disabled_passthrough:
  "\<not> isEnabled c \<Longrightarrow> wrap env fn options this args c = callFunction env c fn this args"
  by (simp add: wrap_def wrappedFunction_def)

theorem wrap_disabled_passthrough_witness:
  "\<not> isEnabled initialConfig
   \<and> wrap exampleCode exampleTarget JUndefined JUndefined [JNum 1, JNum 2] initialConfig
       = (Throw exampleError, [Invoke exampleTarget JUndefined [JNum 1, JNum 2]])
   \<and> wrap exampleCode exampleSubscriber JUndefined JUndefined [JNum 1, JNum 2] initialConfig
       = (Return JUndefined, [Invoke exampleSubscriber JUndefined [JNum 1, JNum 2]])"
  using wrap_disabled_passthrough [of initialConfig exampleCode exampleTarget JUndefined JUndefined
      "[JNum 1, JNum 2]"]
    wrap_disabled_passthrough [of initialConfig exampleCode exampleSubscriber JUndefined JUndefined
      "[JNum 1, JNum 2]"]
  by code_simp

section \<open>The failback\<close>

text \<open>
  Claim C9, as stated: with logging enabled the failback logs the success lines exactly
  when \<^verbatim>\<open>data\<close> is present. It fails: the code tests \<^verbatim>\<open>if (data)\<close>, and the call
  \<^verbatim>\<open>failback(undefined, 0)\<close> passes the data value \<^verbatim>\<open>0\<close> and writes nothing.
\<close>

theorem failback_falsy_data_counterexample:
  "isLoggingEnabled loggingConfig \<and> JNum 0 \<noteq> JUndefined \<and> JNum 0 \<noteq> JNull
   \<and> callFunction exampleCode loggingConfig (makeErrorSubscriberFailback (JStr ''sub'')) JUndefined
        [JUndefined, JNum 0]
       = (Return JUndefined, [Invoke (JFailback (JStr ''sub'')) JUndefined [JUndefined, JNum 0]])"
  by code_simp

text \<open>
  Claim C9, amended: for every name string and every pair \<open>(error, data)\<close>, a call of the
  failback produced by \<^verbatim>\<open>makeErrorSubscriberFailback(name)\<close> returns \<^verbatim>\<open>undefined\<close> and
  writes nothing when logging is disabled; when logging is enabled it writes
  \<^verbatim>\<open>Error subscriber <name> failed with error\<close> and then the error value exactly when
  \<open>error\<close> is truthy, and after that, independently, \<^verbatim>\<open>Error subscriber <name> succeeded with\<close>
  and then the data value exactly when \<open>data\<close> is truthy.
\<close>

theorem failback_logs_truthy:
  "callFunction env c (makeErrorSubscriberFailback (JStr name)) this [error, data] =
     (Return JUndefined,
      Invoke (makeErrorSubscriberFailback (JStr name)) this [error, data] #
        map Console
          (if \<not> isLoggingEnabled c then []
           else (if truthy error then
                   [Err (JStr (''Error subscriber '' @ name @ '' failed with error'')), Err error]
                 else []) @
                (if truthy data then
                   [Log (JStr (''Error subscriber '' @ name @ '' succeeded with'')), Log data]
                 else [])))"
  by (simp add: callFunction_def makeErrorSubscriberFailback_def errorSubscriberFailback_def
      argument_def)

text \<open>The two calls of the test suite, \<^verbatim>\<open>failback('myError')\<close> and
  \<^verbatim>\<open>failback(undefined, 'mySuccess')\<close>, and a call with logging disabled.\<close>

theorem failback_logs_truthy_witness:
  "callFunction exampleCode loggingConfig (makeErrorSubscriberFailback (JStr ''errorSubscriber10''))
       JUndefined [JStr ''myError'', JUndefined] =
     (Return JUndefined,
      [Invoke (JFailback (JStr ''errorSubscriber10'')) JUndefined [JStr ''myError'', JUndefined],
       Console (Err (JStr ''Error subscriber errorSubscriber10 failed with error'')),
       Console (Err (JStr ''myError''))])
   \<and> callFunction exampleCode loggingConfig (makeErrorSubscriberFailback (JStr ''errorSubscriber10''))
       JUndefined [JUndefined, JStr ''mySuccess''] =
     (Return JUndefined,
      [Invoke (JFailback (JStr ''errorSubscriber10'')) JUndefined [JUndefined, JStr ''mySuccess''],
       Console (Log (JStr ''Error subscriber errorSubscriber10 succeeded with'')),
       Console (Log (JStr ''mySuccess''))])
   \<and> callFunction exampleCode silentConfig (makeErrorSubscriberFailback (JStr ''errorSubscriber10''))
       JUndefined [JStr ''myError'', JStr ''mySuccess''] =
     (Return JUndefined,
      [Invoke (JFailback (JStr ''errorSubscriber10'')) JUndefined [JStr ''myError'', JStr ''mySuccess'']])"
  using failback_logs_truthy [of exampleCode loggingConfig "''errorSubscriber10''" JUndefined
      "JStr ''myError''" JUndefined]
    failback_logs_truthy [of exampleCode loggingConfig "''errorSubscriber10''" JUndefined
      JUndefined "JStr ''mySuccess''"]
    failback_logs_truthy [of exampleCode silentConfig "''errorSubscriber10''" JUndefined
      "JStr ''myError''" "JStr ''mySuccess''"]
  by (simp add: loggingConfig_def silentConfig_def makeErrorSubscriberFailback_def)

section \<open>The configuration invariant\<close>

lemma buildSubscriberList_callable:
  assumes "buildSubscriberList c v = (Return subs, out)"
  shows "\<forall>s\<in>set subs. callable s"
proof -
  from assms have "\<forall>s\<in>set subs. isFunction s \<and> \<not> firstIsNotError (getArgumentNames s)"
    using filterFrom_kept [of c 0]
    by (auto simp add: buildSubscriberList_def case_prod_unfold split: jsval.splits if_splits)
  then show ?thesis
    using kept_callable by blast
qed

lemma init_consistent:
  assumes "consistent c"
  shows "consistent (snd (snd (initErrorCatchNotifier v e l c)))"
proof -
  define c1 where "c1 = (if truthy l then enableLogging c else disableLogging c)"
  define cand where "cand = (if v = JUndefined then JArr [] else v)"
  from assms have c1: "consistent c1"
    by (simp add: c1_def consistent_def enableLogging_def disableLogging_def)
  show ?thesis
  proof (cases "\<not> isArray cand \<and> isLoggingEnabled c1")
    case True
    with c1 show ?thesis
      by (simp add: initErrorCatchNotifier_def Let_def c1_def cand_def)
  next
    case False
    show ?thesis
    proof (cases "buildSubscriberList c1 cand")
      case (Pair r out)
      show ?thesis
      proof (cases r)
        case (Throw x)
        with Pair False c1 show ?thesis
          by (simp add: initErrorCatchNotifier_def Let_def c1_def cand_def)
      next
        case (Return subs)
        with Pair have "\<forall>s\<in>set subs. callable s"
          using buildSubscriberList_callable by blast
        then have "list_all callable subs"
          by (simp add: list_all_iff)
        with Pair Return False show ?thesis
          by (auto simp add: initErrorCatchNotifier_def Let_def c1_def [symmetric] cand_def [symmetric]
              consistent_def enableErrorCatching_def disableErrorCatching_def)
      qed
    qed
  qed
qed

lemma reachable_consistent: "reachable c \<Longrightarrow> consistent c"
proof (induction rule: reachable.induct)
  case reachable_initial
  show ?case by (simp add: consistent_def initialConfig_def)
next
  case (reachable_enableLogging c)
  then show ?case by (simp add: consistent_def enableLogging_def)
next
  case (reachable_disableLogging c)
  then show ?case by (simp add: consistent_def disableLogging_def)
next
  case (reachable_enableErrorCatching c)
  then show ?case by (simp add: consistent_def enableErrorCatching_def)
next
  case (reachable_disableErrorCatching c)
  then show ?case by (simp add: consistent_def disableErrorCatching_def)
next
  case (reachable_init c candidates enabled loggingEnabled)
  then show ?case by (simp add: init_consistent)
qed

lemma reachable_subscribers_callable: "reachable c \<Longrightarrow> \<forall>s\<in>set (errorSubscribers c). callable s"
  using reachable_consistent [of c]
  by (simp add: consistent_def list_all_iff)

lemma silentConfig_reachable: "reachable silentConfig"
proof -
  have "snd (snd (initErrorCatchNotifier (JArr [exampleFailingSubscriber, exampleSubscriber])
          (JBool True) (JBool False) initialConfig)) = silentConfig"
    by code_simp
  with reachable_init [OF reachable_initial,
      of "JArr [exampleFailingSubscriber, exampleSubscriber]" "JBool True" "JBool False"]
  show ?thesis by simp
qed

text \<open>
  Claim C5: in every reachable configuration the catching flag is true only if the stored
  subscriber list is not empty; \<^verbatim>\<open>enableErrorCatching\<close> called while the list is empty
  leaves the flag false and writes the warning exactly when logging is enabled; and the
  flag it leaves is true exactly when the list was not empty at that moment.
\<close>

theorem catching_needs_subscribers:
  "(reachable c \<longrightarrow> isEnabled c \<longrightarrow> errorSubscribers c \<noteq> [])
   \<and> (errorSubscribers c = [] \<longrightarrow>
        enableErrorCatching c =
          ((if isLoggingEnabled c then
              [Warn (JStr ''No valid error subscribers provided. Use init to pass valid error subscribers'')]
            else []),
           c\<lparr>isEnabled := False\<rparr>))
   \<and> (isEnabled (snd (enableErrorCatching c)) \<longleftrightarrow> errorSubscribers c \<noteq> [])"
  using reachable_consistent [of c]
  by (auto simp add: consistent_def enableErrorCatching_def)

theorem catching_needs_subscribers_witness:
  "reachable silentConfig \<and> isEnabled silentConfig \<and> errorSubscribers silentConfig \<noteq> []
   \<and> errorSubscribers initialConfig = []
   \<and> enableErrorCatching initialConfig = ([], initialConfig)
   \<and> enableErrorCatching (enableLogging initialConfig) =
       ([Warn (JStr ''No valid error subscribers provided. Use init to pass valid error subscribers'')],
        enableLogging initialConfig)"
  using catching_needs_subscribers [of silentConfig] catching_needs_subscribers [of initialConfig]
    catching_needs_subscribers [of "enableLogging initialConfig"] silentConfig_reachable
  by (simp add: silentConfig_def initialConfig_def enableLogging_def)

section \<open>The notifier\<close>

lemma notifyFrom_returns:
  "\<forall>s\<in>set subs. \<not> nullish s \<Longrightarrow> fst (notifyFrom env c e opts subs) = Return JUndefined"
proof (induction subs)
  case Nil
  show ?case by simp
next
  case (Cons s subs)
  then show ?case
    by (cases "callSubscriber env c s e opts"; cases "fst (callSubscriber env c s e opts)")
       (simp_all add: case_prod_unfold)
qed

lemma notifyFrom_step_return:
  "returns (fst (callSubscriber env c s e opts)) \<Longrightarrow>
   snd (notifyFrom env c e opts (s # rest)) =
     snd (callSubscriber env c s e opts) @ snd (notifyFrom env c e opts rest)"
  by (cases "callSubscriber env c s e opts"; cases "fst (callSubscriber env c s e opts)")
     (simp_all add: case_prod_unfold)

lemma notifyFrom_step_throw_logging:
  "isLoggingEnabled c \<Longrightarrow> \<not> nullish s \<Longrightarrow> fst (callSubscriber env c s e opts) = Throw x \<Longrightarrow>
   snd (notifyFrom env c e opts (s # rest)) =
     snd (callSubscriber env c s e opts) @ skippingLines s x @ snd (notifyFrom env c e opts rest)"
  by (cases "callSubscriber env c s e opts")
     (simp add: case_prod_unfold skippingLines_def)

lemma notifyFrom_step_throw_silent:
  "\<not> isLoggingEnabled c \<Longrightarrow> \<not> returns (fst (callSubscriber env c s e opts)) \<Longrightarrow>
   notifyFrom env c e opts (s # rest) = (Return JUndefined, snd (callSubscriber env c s e opts))"
  by (cases "callSubscriber env c s e opts"; cases "fst (callSubscriber env c s e opts)")
     (simp_all add: case_prod_unfold)

lemma notifyFrom_prefix_returns:
  "\<forall>p\<in>set pre. returns (fst (callSubscriber env c p e opts)) \<Longrightarrow>
   snd (notifyFrom env c e opts (pre @ rest)) =
     concat (map (\<lambda>p. snd (callSubscriber env c p e opts)) pre) @ snd (notifyFrom env c e opts rest)"
proof (induction pre)
  case Nil
  show ?case by simp
next
  case (Cons p pre)
  then show ?case
    by (simp add: notifyFrom_step_return del: notifyFrom.simps)
qed

lemma notifyFrom_suffix_logging:
  "isLoggingEnabled c \<Longrightarrow> \<forall>p\<in>set pre. \<not> nullish p \<Longrightarrow>
   \<exists>before. snd (notifyFrom env c e opts (pre @ rest)) = before @ snd (notifyFrom env c e opts rest)"
proof (induction pre)
  case Nil
  show ?case by simp
next
  case (Cons p pre)
  then obtain before where
    rest: "snd (notifyFrom env c e opts (pre @ rest)) = before @ snd (notifyFrom env c e opts rest)"
    by auto
  show ?case
  proof (cases "fst (callSubscriber env c p e opts)")
    case (Return v)
    then have "returns (fst (callSubscriber env c p e opts))" by simp
    from notifyFrom_step_return [OF this, of "pre @ rest"] rest show ?thesis
      by (simp del: notifyFrom.simps)
  next
    case (Throw x)
    from Cons.prems have "\<not> nullish p" by simp
    from notifyFrom_step_throw_logging [OF Cons.prems(1) this Throw, of "pre @ rest"] rest
    show ?thesis
      by (simp del: notifyFrom.simps)
  qed
qed

lemma callSubscriber_invokes:
  "callable s \<Longrightarrow>
   \<exists>tr. snd (callSubscriber env c s e opts) =
     Invoke s JUndefined [e, opts, makeErrorSubscriberFailback (property s ''name'')] # tr"
  by (cases s) (simp_all add: callSubscriber_def callFunction_def case_prod_unfold)

lemma notifyFrom_head_invoked:
  assumes "callable s"
  shows "Invoke s JUndefined [e, opts, makeErrorSubscriberFailback (property s ''name'')]
           \<in> set (snd (notifyFrom env c e opts (s # rest)))"
proof -
  from callSubscriber_invokes [OF assms, of env c e opts] obtain tr where
    tr: "snd (callSubscriber env c s e opts) =
           Invoke s JUndefined [e, opts, makeErrorSubscriberFailback (property s ''name'')] # tr"
    by blast
  show ?thesis
  proof (cases "fst (callSubscriber env c s e opts)")
    case (Return v)
    then have "returns (fst (callSubscriber env c s e opts))" by simp
    from notifyFrom_step_return [OF this, of rest] tr show ?thesis
      by (simp del: notifyFrom.simps)
  next
    case (Throw x)
    show ?thesis
    proof (cases "isLoggingEnabled c")
      case True
      from assms have "\<not> nullish s" by (rule callable_not_nullish)
      from notifyFrom_step_throw_logging [OF True this Throw, of rest] tr show ?thesis
        by (simp del: notifyFrom.simps)
    next
      case False
      from Throw have "\<not> returns (fst (callSubscriber env c s e opts))" by simp
      from notifyFrom_step_throw_silent [OF False this, of rest] tr show ?thesis
        by (simp del: notifyFrom.simps)
    qed
  qed
qed

lemma notifyFrom_invoked:
  assumes subs: "subs = pre @ s # post" and callable: "\<forall>p\<in>set subs. callable p"
    and reached: "isLoggingEnabled c \<or> (\<forall>p\<in>set pre. returns (fst (callSubscriber env c p e opts)))"
  shows "Invoke s JUndefined [e, opts, makeErrorSubscriberFailback (property s ''name'')]
           \<in> set (snd (notifyFrom env c e opts subs))"
proof -
  from subs callable have "callable s" by simp
  then have head: "Invoke s JUndefined [e, opts, makeErrorSubscriberFailback (property s ''name'')]
      \<in> set (snd (notifyFrom env c e opts (s # post)))"
    by (rule notifyFrom_head_invoked)
  from reached show ?thesis
  proof
    assume logging: "isLoggingEnabled c"
    from subs callable have "\<forall>p\<in>set pre. \<not> nullish p"
      by (simp add: callable_not_nullish)
    from notifyFrom_suffix_logging [OF logging this, of env e opts "s # post"] head subs
    show ?thesis by auto
  next
    assume "\<forall>p\<in>set pre. returns (fst (callSubscriber env c p e opts))"
    from notifyFrom_prefix_returns [OF this, of "s # post"] head subs
    show ?thesis by simp
  qed
qed

text \<open>
  Claim C10: while the stored subscriber list is empty, \<^verbatim>\<open>notifyErrorSubscribers\<close> returns
  \<^verbatim>\<open>undefined\<close> with no event at all: no function is called, no line is written and
  nothing is thrown, whatever the error and the options. This holds in the initial
  configuration, before any call of \<^verbatim>\<open>initErrorCatchNotifier\<close>. The function has no
  assignment to the configuration, which is why its model returns none.
\<close>

theorem notify_empty_noop:
  "(errorSubscribers c = [] \<longrightarrow> notifyErrorSubscribers env error options c = (Return JUndefined, []))
   \<and> notifyErrorSubscribers env error options initialConfig = (Return JUndefined, [])"
  by (simp add: notifyErrorSubscribers_def initialConfig_def)

theorem notify_empty_noop_witness:
  "errorSubscribers (disableLogging initialConfig) = []
   \<and> notifyErrorSubscribers exampleCode exampleError JUndefined (disableLogging initialConfig)
       = (Return JUndefined, [])"
  using notify_empty_noop [of "disableLogging initialConfig" exampleCode exampleError JUndefined]
  by (simp add: initialConfig_def disableLogging_def)

section \<open>Isolation of subscriber failures\<close>

text \<open>
  Claim C2, as stated: in one call of \<^verbatim>\<open>notifyErrorSubscribers\<close> no subscriber after the
  first throwing one is invoked, whether logging is enabled or disabled. It fails with
  logging enabled: the \<^verbatim>\<open>catch\<close> block writes its two lines and the loop goes on, as the
  docstring says (\<^verbatim>\<open>Passes an error to each callback\<close>). Here the first subscriber throws
  and the second one is still called.
\<close>

theorem notify_continues_with_logging_counterexample:
  "isLoggingEnabled loggingConfig
   \<and> errorSubscribers loggingConfig = [exampleFailingSubscriber, exampleSubscriber]
   \<and> fst (callSubscriber exampleCode loggingConfig exampleFailingSubscriber exampleError JUndefined)
       = Throw subscriberFailure
   \<and> notifyErrorSubscribers exampleCode exampleError JUndefined loggingConfig =
       (Return JUndefined,
        [Invoke exampleFailingSubscriber JUndefined
           [exampleError, JUndefined, JFailback (JStr ''failingSubscriber'')],
         Console (Err (JStr ''Skipping error subscriber: failingSubscriber'')),
         Console (Err subscriberFailure),
         Invoke exampleSubscriber JUndefined
           [exampleError, JUndefined, JFailback (JStr ''errorSubscriber'')]])"
  by code_simp

text \<open>
  Claim C2, amended: for every stored list of callable subscribers and every error value,
  a throw of a subscriber during one call of \<^verbatim>\<open>notifyErrorSubscribers\<close> is caught locally:
  the call returns \<^verbatim>\<open>undefined\<close>. When logging is enabled, the two lines
  \<^verbatim>\<open>Skipping error subscriber: <name>\<close> and the caught error follow the call of each
  throwing subscriber, and every subscriber after it is still invoked.
\<close>

theorem notify_isolation:
  assumes callable: "\<forall>s\<in>set (errorSubscribers c). callable s"
  shows "fst (notifyErrorSubscribers env error options c) = Return JUndefined
   \<and> (isLoggingEnabled c \<and> errorSubscribers c = pre @ s # post
        \<and> fst (callSubscriber env c s error options) = Throw x \<longrightarrow>
      (\<exists>before after.
         snd (notifyErrorSubscribers env error options c) =
           before @ snd (callSubscriber env c s error options) @
           [Console (Err (JStr (''Skipping error subscriber: '' @ toStr (property s ''name'')))),
            Console (Err x)] @ after
         \<and> (\<forall>q\<in>set post.
               Invoke q JUndefined [error, options, makeErrorSubscriberFailback (property q ''name'')]
                 \<in> set after)))"
proof (intro conjI impI)
  from callable have "\<forall>s\<in>set (errorSubscribers c). \<not> nullish s"
    by (simp add: callable_not_nullish)
  then show "fst (notifyErrorSubscribers env error options c) = Return JUndefined"
    unfolding notifyErrorSubscribers_def by (rule notifyFrom_returns)
next
  assume a: "isLoggingEnabled c \<and> errorSubscribers c = pre @ s # post
        \<and> fst (callSubscriber env c s error options) = Throw x"
  then have logging: "isLoggingEnabled c" and subs: "errorSubscribers c = pre @ s # post"
    and throws: "fst (callSubscriber env c s error options) = Throw x"
    by simp_all
  from callable subs have pre: "\<forall>p\<in>set pre. \<not> nullish p" and s: "\<not> nullish s"
    and post: "\<forall>p\<in>set post. callable p"
    by (simp_all add: callable_not_nullish)
  from notifyFrom_suffix_logging [OF logging pre, of env error options "s # post"]
  obtain before where
    "snd (notifyFrom env c error options (pre @ s # post)) =
       before @ snd (notifyFrom env c error options (s # post))"
    by blast
  with notifyFrom_step_throw_logging [OF logging s throws, of post] subs
  have trace: "snd (notifyErrorSubscribers env error options c) =
      before @ snd (callSubscriber env c s error options) @
      [Console (Err (JStr (''Skipping error subscriber: '' @ toStr (property s ''name'')))),
       Console (Err x)] @ snd (notifyFrom env c error options post)"
    by (simp add: notifyErrorSubscribers_def skippingLines_def del: notifyFrom.simps)
  have "\<forall>q\<in>set post.
      Invoke q JUndefined [error, options, makeErrorSubscriberFailback (property q ''name'')]
        \<in> set (snd (notifyFrom env c error options post))"
  proof
    fix q
    assume "q \<in> set post"
    then obtain ys zs where "post = ys @ q # zs"
      by (auto simp add: in_set_conv_decomp)
    from notifyFrom_invoked [OF this post, of c env error options] logging
    show "Invoke q JUndefined [error, options, makeErrorSubscriberFailback (property q ''name'')]
        \<in> set (snd (notifyFrom env c error options post))"
      by simp
  qed
  with trace
  show "\<exists>before after.
         snd (notifyErrorSubscribers env error options c) =
           before @ snd (callSubscriber env c s error options) @
           [Console (Err (JStr (''Skipping error subscriber: '' @ toStr (property s ''name'')))),
            Console (Err x)] @ after
         \<and> (\<forall>q\<in>set post.
               Invoke q JUndefined [error, options, makeErrorSubscriberFailback (property q ''name'')]
                 \<in> set after)"
    by blast
qed

theorem notify_isolation_witness:
  "list_all callable (errorSubscribers loggingConfig)
   \<and> isLoggingEnabled loggingConfig
   \<and> errorSubscribers loggingConfig = [exampleFailingSubscriber, exampleSubscriber]
   \<and> fst (callSubscriber exampleCode loggingConfig exampleFailingSubscriber exampleError JUndefined)
       = Throw subscriberFailure
   \<and> fst (notifyErrorSubscribers exampleCode exampleError JUndefined loggingConfig) = Return JUndefined
   \<and> (\<exists>before after.
         snd (notifyErrorSubscribers exampleCode exampleError JUndefined loggingConfig) =
           before @
           snd (callSubscriber exampleCode loggingConfig exampleFailingSubscriber exampleError
                 JUndefined) @
           [Console (Err (JStr ''Skipping error subscriber: failingSubscriber'')),
            Console (Err subscriberFailure)] @ after
         \<and> Invoke exampleSubscriber JUndefined
              [exampleError, JUndefined, JFailback (JStr ''errorSubscriber'')] \<in> set after)"
proof -
  have callable_logging: "\<forall>s\<in>set (errorSubscribers loggingConfig). callable s"
    by (simp add: loggingConfig_def exampleFailingSubscriber_def exampleSubscriber_def)
  have e1: "list_all callable (errorSubscribers loggingConfig)"
    by code_simp
  have e2: "isLoggingEnabled loggingConfig"
    by code_simp
  have e3: "errorSubscribers loggingConfig = [] @ exampleFailingSubscriber # [exampleSubscriber]"
    by code_simp
  have e4: "fst (callSubscriber exampleCode loggingConfig exampleFailingSubscriber exampleError
      JUndefined) = Throw subscriberFailure"
    by code_simp
  have n1: "toStr (property exampleFailingSubscriber ''name'') = ''failingSubscriber''"
    by code_simp
  have n2: "makeErrorSubscriberFailback (property exampleSubscriber ''name'')
      = JFailback (JStr ''errorSubscriber'')"
    by code_simp
  note logging = notify_isolation [OF callable_logging, of exampleCode exampleError JUndefined "[]"
      exampleFailingSubscriber "[exampleSubscriber]" subscriberFailure]
  from logging have r1:
    "fst (notifyErrorSubscribers exampleCode exampleError JUndefined loggingConfig) = Return JUndefined"
    by (rule conjunct1)
  from logging e2 e3 e4 obtain before after where
    trace: "snd (notifyErrorSubscribers exampleCode exampleError JUndefined loggingConfig) =
       before @
       snd (callSubscriber exampleCode loggingConfig exampleFailingSubscriber exampleError JUndefined) @
       [Console (Err (JStr (''Skipping error subscriber: '' @
                            toStr (property exampleFailingSubscriber ''name'')))),
        Console (Err subscriberFailure)] @ after"
    and rest: "\<forall>q\<in>set [exampleSubscriber].
       Invoke q JUndefined [exampleError, JUndefined, makeErrorSubscriberFailback (property q ''name'')]
         \<in> set after"
    by blast
  from rest n2 have r2: "Invoke exampleSubscriber JUndefined
      [exampleError, JUndefined, JFailback (JStr ''errorSubscriber'')] \<in> set after"
    by simp
  from trace n1 have r3:
    "snd (notifyErrorSubscribers exampleCode exampleError JUndefined loggingConfig) =
       before @
       snd (callSubscriber exampleCode loggingConfig exampleFailingSubscriber exampleError JUndefined) @
       [Console (Err (JStr ''Skipping error subscriber: failingSubscriber'')),
        Console (Err subscriberFailure)] @ after"
    by simp
  from r2 r3 have r4: "\<exists>before after.
      snd (notifyErrorSubscribers exampleCode exampleError JUndefined loggingConfig) =
        before @
        snd (callSubscriber exampleCode loggingConfig exampleFailingSubscriber exampleError
              JUndefined) @
        [Console (Err (JStr ''Skipping error subscriber: failingSubscriber'')),
         Console (Err subscriberFailure)] @ after
      \<and> Invoke exampleSubscriber JUndefined
           [exampleError, JUndefined, JFailback (JStr ''errorSubscriber'')] \<in> set after"
    by blast
  have e3': "errorSubscribers loggingConfig = [exampleFailingSubscriber, exampleSubscriber]"
    by code_simp
  from e1 e2 e3' e4 r1 r4 show ?thesis
    by (intro conjI)
qed

section \<open>The wrapper with catching enabled\<close>

text \<open>
  Claim C3: when catching is enabled at call time and the call of the target throws \<open>E\<close>,
  the wrapped call returns \<^verbatim>\<open>undefined\<close>, and every subscriber \<open>s\<close> of the active list
  that the stop rule does not skip (logging is enabled, or no subscriber before \<open>s\<close> has
  thrown) is invoked with \<open>E\<close> as first argument, the wrap-time options as second and the
  failback made for the name of \<open>s\<close> as third. The subscribers of a reachable configuration
  are callable (\<open>reachable_subscribers_callable\<close>).
\<close>

theorem wrap_catches_and_notifies:
  assumes enabled: "isEnabled c"
    and callable: "\<forall>s\<in>set (errorSubscribers c). callable s"
    and throws: "callFunction env c fn this args = (Throw E, tr)"
  shows "fst (wrap env fn options this args c) = Return JUndefined
   \<and> (errorSubscribers c = pre @ s # post
        \<and> (isLoggingEnabled c \<or> (\<forall>p\<in>set pre. returns (fst (callSubscriber env c p E options)))) \<longrightarrow>
      Invoke s JUndefined [E, options, makeErrorSubscriberFailback (property s ''name'')]
        \<in> set (snd (wrap env fn options this args c)))"
proof -
  from callable have "\<forall>s\<in>set (errorSubscribers c). \<not> nullish s"
    by (simp add: callable_not_nullish)
  then have "fst (notifyErrorSubscribers env E options c) = Return JUndefined"
    unfolding notifyErrorSubscribers_def by (rule notifyFrom_returns)
  with enabled throws
  have wrapped: "wrap env fn options this args c =
      (Return JUndefined, tr @ snd (notifyErrorSubscribers env E options c))"
    by (cases "notifyErrorSubscribers env E options c") (simp add: wrap_def wrappedFunction_def)
  show ?thesis
  proof (intro conjI impI)
    from wrapped show "fst (wrap env fn options this args c) = Return JUndefined"
      by simp
  next
    assume a: "errorSubscribers c = pre @ s # post
        \<and> (isLoggingEnabled c \<or> (\<forall>p\<in>set pre. returns (fst (callSubscriber env c p E options))))"
    then have subs: "errorSubscribers c = pre @ s # post"
      and reached: "isLoggingEnabled c \<or> (\<forall>p\<in>set pre. returns (fst (callSubscriber env c p E options)))"
      by simp_all
    from notifyFrom_invoked [OF subs callable reached] wrapped
    show "Invoke s JUndefined [E, options, makeErrorSubscriberFailback (property s ''name'')]
        \<in> set (snd (wrap env fn options this args c))"
      by (simp add: notifyErrorSubscribers_def)
  qed
qed

theorem wrap_catches_and_notifies_witness:
  "isEnabled silentConfig \<and> list_all callable (errorSubscribers silentConfig)
   \<and> callFunction exampleCode silentConfig exampleTarget JUndefined [] =
       (Throw exampleError, [Invoke exampleTarget JUndefined []])
   \<and> wrap exampleCode exampleTarget (JStr ''options'') JUndefined [] silentConfig =
       (Return JUndefined,
        [Invoke exampleTarget JUndefined [],
         Invoke exampleFailingSubscriber JUndefined
           [exampleError, JStr ''options'', JFailback (JStr ''failingSubscriber'')]])"
proof -
  have enabled: "isEnabled silentConfig"
    and callable: "\<forall>s\<in>set (errorSubscribers silentConfig). callable s"
    by (simp_all add: silentConfig_def exampleFailingSubscriber_def exampleSubscriber_def)
  have throws: "callFunction exampleCode silentConfig exampleTarget JUndefined [] =
      (Throw exampleError, [Invoke exampleTarget JUndefined []])"
    by code_simp
  have evaluated:
    "list_all callable (errorSubscribers silentConfig)
     \<and> wrap exampleCode exampleTarget (JStr ''options'') JUndefined [] silentConfig =
         (Return JUndefined,
          [Invoke exampleTarget JUndefined [],
           Invoke exampleFailingSubscriber JUndefined
             [exampleError, JStr ''options'', JFailback (JStr ''failingSubscriber'')]])"
    by code_simp
  from wrap_catches_and_notifies [OF enabled callable throws, of "JStr ''options''" "[]"
      exampleFailingSubscriber "[exampleSubscriber]"] enabled throws evaluated
  show ?thesis
    by simp
qed

end
